theory Spec2Isabelle
  imports Complex_Main "HOL-Library.AList"
begin

section \<open>Exporting a converted ONNX model for TensorFlow Serving\<close>

text \<open>
  The development follows the notebook \<^verbatim>\<open>notebooks/4_production_TFServing.ipynb\<close>
  cell by cell. The notebook is glue: each cell calls TensorFlow, \<^verbatim>\<open>os\<close>,
  \<^verbatim>\<open>shutil\<close>, \<^verbatim>\<open>requests\<close> or \<^verbatim>\<open>numpy\<close>. A library call is
  modelled by what it does to the values and to the file system the notebook hands it;
  where the notebook records a cell's output, the model is checked against the record.

  Outside the model: the graph definition and the session, symbolic links, absolute
  paths and \<^verbatim>\<open>.\<close> components, and input/output failures that do not follow
  from the shape of the directory tree (permissions, a full disk).
\<close>

subsection \<open>Exceptions\<close>

datatype py_error =
    AssertionError string
  | KeyError string
  | OSError string
  | ValueError
  | TypeError
  | ConnectionError
  | JSONDecodeError

subsection \<open>Protocol buffer messages\<close>

text \<open>
  \<^verbatim>\<open>DataType\<close> of \<^verbatim>\<open>types.proto\<close>: \<open>DT_INVALID\<close> is the value of a
  \<^verbatim>\<open>dtype\<close> field that was never set. Only some of the scalar types are listed.
\<close>

datatype data_type =
  DT_INVALID | DT_FLOAT | DT_DOUBLE | DT_INT32 | DT_UINT8 | DT_STRING | DT_INT64 | DT_BOOL

text \<open>
  \<^verbatim>\<open>TensorInfo\<close>, as the notebook prints it: a name, a dtype and the sizes of
  the dimensions of \<^verbatim>\<open>tensor_shape\<close>, in order. A scalar has no dimension.
  The name of a tensor is never empty (it is \<^verbatim>\<open>op:index\<close>), and a descriptor whose
  name was never set reads as the empty name: the empty name stands for a descriptor
  with no name, and a name set to the empty string on purpose is not told apart from
  it. Descriptors of sparse tensors are outside the model.
\<close>

record tensor_info =
  name :: string
  dtype :: data_type
  tensor_shape :: "int list"

text \<open>
  \<^verbatim>\<open>SignatureDef\<close>: two maps from a role key to a descriptor and a method name.
  A Python dict and a protocol buffer map are association lists with distinct keys;
  storing under a key (\<open>AList.update\<close>) replaces the entry in place or appends it.
\<close>

record signature_def =
  inputs :: "(string \<times> tensor_info) list"
  outputs :: "(string \<times> tensor_info) list"
  method_name :: string

record meta_graph_def =
  tags :: "string list"
  signature_defs :: "(string \<times> signature_def) list"

type_synonym saved_model = "meta_graph_def list"

subsection \<open>The file system\<close>

text \<open>
  A file holds bytes or, for \<^verbatim>\<open>saved_model.pb\<close>, the message whose serialisation
  it is. A directory maps entry names to nodes. The root of the tree is the notebook's
  working directory, and \<^verbatim>\<open>..\<close> is an entry like any other.
\<close>

datatype file_content = Bytes string | SavedModelPb saved_model

datatype node = File file_content | Dir "string \<Rightarrow> node option"

type_synonym path = "string list"

fun lookup :: "node \<Rightarrow> path \<Rightarrow> node option" where
  "lookup n [] = Some n"
| "lookup (File x) (c # cs) = None"
| "lookup (Dir m) (c # cs) = (case m c of None \<Rightarrow> None | Some n \<Rightarrow> lookup n cs)"

text \<open>Removing the entry at a path, with everything below it.\<close>

fun remove :: "node \<Rightarrow> path \<Rightarrow> node" where
  "remove n [] = n"
| "remove (File x) (c # cs) = File x"
| "remove (Dir m) [c] = Dir (m(c := None))"
| "remove (Dir m) (c # cs) =
     (case m c of None \<Rightarrow> Dir m | Some n \<Rightarrow> Dir (m(c \<mapsto> remove n cs)))"

text \<open>
  Creating a directory and the ancestors it lacks (\<^verbatim>\<open>mkdir -p\<close>); a file on the
  way is an error.
\<close>

fun mkdirs :: "node \<Rightarrow> path \<Rightarrow> py_error + node" where
  "mkdirs (File x) cs = Inl (OSError ''Not a directory'')"
| "mkdirs (Dir m) [] = Inr (Dir m)"
| "mkdirs (Dir m) (c # cs) =
     (case mkdirs (case m c of None \<Rightarrow> Dir Map.empty | Some n \<Rightarrow> n) cs of
        Inl e \<Rightarrow> Inl e
      | Inr n' \<Rightarrow> Inr (Dir (m(c \<mapsto> n'))))"

text \<open>Writing a file: its directory must exist, and the name must not be a directory's.\<close>

fun write_file :: "node \<Rightarrow> path \<Rightarrow> file_content \<Rightarrow> py_error + node" where
  "write_file n [] x = Inl (OSError ''Is a directory'')"
| "write_file (File y) (c # cs) x = Inl (OSError ''Not a directory'')"
| "write_file (Dir m) [c] x =
     (case m c of
        Some (Dir d) \<Rightarrow> Inl (OSError ''Is a directory'')
      | _ \<Rightarrow> Inr (Dir (m(c \<mapsto> File x))))"
| "write_file (Dir m) (c # cs) x =
     (case m c of
        None \<Rightarrow> Inl (OSError ''No such file or directory'')
      | Some n \<Rightarrow>
          (case write_file n cs x of
             Inl e \<Rightarrow> Inl e
           | Inr n' \<Rightarrow> Inr (Dir (m(c \<mapsto> n')))))"

subsection \<open>Path strings\<close>

fun split_on :: "char \<Rightarrow> string \<Rightarrow> string list" where
  "split_on s [] = [[]]"
| "split_on s (c # cs) =
     (if c = s then [] # split_on s cs
      else (case split_on s cs of [] \<Rightarrow> [[c]] | w # ws \<Rightarrow> (c # w) # ws))"

text \<open>The components of a relative path: empty ones (doubled or trailing slashes) drop out.\<close>

definition components :: "string \<Rightarrow> path" where
  "components s = filter (\<lambda>w. w \<noteq> []) (split_on CHR ''/'' s)"

text \<open>
  \<^verbatim>\<open>posixpath.join\<close>: a component that starts with a slash restarts the path,
  a component after an empty path or a trailing slash is appended as it is, any other
  after a slash.
\<close>

definition join2 :: "string \<Rightarrow> string \<Rightarrow> string" where
  "join2 a b =
     (if b \<noteq> [] \<and> hd b = CHR ''/'' then b
      else if a = [] \<or> last a = CHR ''/'' then a @ b
      else a @ CHR ''/'' # b)"

definition os_path_join :: "string \<Rightarrow> string list \<Rightarrow> string" where
  "os_path_join a p = foldl join2 a p"

text \<open>\<^verbatim>\<open>str\<close> of a non-negative integer: its decimal digits.\<close>

function str :: "nat \<Rightarrow> string" where
  "str n = (if n < 10 then [''0123456789'' ! n] else str (n div 10) @ [''0123456789'' ! (n mod 10)])"
  by pat_completeness auto
termination
  by (relation "measure id") auto

declare str.simps [simp del]

subsection \<open>Python calls: a result or an exception, and the file system after the call\<close>

type_synonym 'a py = "node \<Rightarrow> (py_error + 'a) \<times> node"

definition ret :: "'a \<Rightarrow> 'a py" where
  "ret x = (\<lambda>fs. (Inr x, fs))"

definition raise :: "py_error \<Rightarrow> 'a py" where
  "raise e = (\<lambda>fs. (Inl e, fs))"

definition bind :: "'a py \<Rightarrow> ('a \<Rightarrow> 'b py) \<Rightarrow> 'b py" where
  "bind m f = (\<lambda>fs. case m fs of (Inl e, fs') \<Rightarrow> (Inl e, fs') | (Inr x, fs') \<Rightarrow> f x fs')"


fun for_each :: "('a \<Rightarrow> unit py) \<Rightarrow> 'a list \<Rightarrow> unit py" where
  "for_each f [] = ret ()"
| "for_each f (x # xs) = bind (f x) (\<lambda>_. for_each f xs)"

subsection \<open>\<^verbatim>\<open>os\<close>, \<^verbatim>\<open>shutil\<close> and TensorFlow's \<^verbatim>\<open>file_io\<close>\<close>

text \<open>
  \<^verbatim>\<open>os.path.exists\<close> never raises. The empty string names nothing, and a path
  written with a trailing slash names a directory only.
\<close>

definition os_path_exists :: "string \<Rightarrow> bool py" where
  "os_path_exists p =
     (\<lambda>fs. (Inr (p \<noteq> [] \<and>
                  (case lookup fs (components p) of
                     None \<Rightarrow> False
                   | Some (File x) \<Rightarrow> last p \<noteq> CHR ''/''
                   | Some (Dir m) \<Rightarrow> True)), fs))"

text \<open>\<^verbatim>\<open>shutil.rmtree\<close> deletes a directory tree and raises on anything else.\<close>

definition shutil_rmtree :: "string \<Rightarrow> unit py" where
  "shutil_rmtree p =
     (\<lambda>fs. case lookup fs (components p) of
              None \<Rightarrow> (Inl (OSError ''No such file or directory''), fs)
            | Some (File x) \<Rightarrow> (Inl (OSError ''Not a directory''), fs)
            | Some (Dir m) \<Rightarrow> (Inr (), remove fs (components p)))"

definition file_exists :: "string \<Rightarrow> bool py" where
  "file_exists p = (\<lambda>fs. (Inr (lookup fs (components p) \<noteq> None), fs))"

definition recursive_create_dir :: "string \<Rightarrow> unit py" where
  "recursive_create_dir p =
     (\<lambda>fs. case mkdirs fs (components p) of
              Inl e \<Rightarrow> (Inl e, fs)
            | Inr fs' \<Rightarrow> (Inr (), fs'))"

definition write_string_to_file :: "string \<Rightarrow> file_content \<Rightarrow> unit py" where
  "write_string_to_file p x =
     (\<lambda>fs. case write_file fs (components p) x of
              Inl e \<Rightarrow> (Inl e, fs)
            | Inr fs' \<Rightarrow> (Inr (), fs'))"

subsection \<open>Tensors and the converted graph\<close>

text \<open>
  A tensor of the converted graph, as the notebook prints \<^verbatim>\<open>tensor_dict\<close>:
  \<^verbatim>\<open><tf.Tensor 'Softmax:0' shape=(1, 62) dtype=float32>\<close>.
\<close>

datatype tensor = Tensor string "int list" data_type

fun tensor_name :: "tensor \<Rightarrow> string" where
  "tensor_name (Tensor n s d) = n"

type_synonym graph = "tensor list"

text \<open>\<^verbatim>\<open>Graph.get_tensor_by_name\<close> raises \<^verbatim>\<open>KeyError\<close> for a name the graph lacks.\<close>

definition get_tensor_by_name :: "graph \<Rightarrow> string \<Rightarrow> tensor py" where
  "get_tensor_by_name g n =
     (case find (\<lambda>t. tensor_name t = n) g of
        None \<Rightarrow> raise (KeyError n)
      | Some t \<Rightarrow> ret t)"

text \<open>
  \<^verbatim>\<open>saved_model.utils.build_tensor_info\<close> copies the tensor's name, dtype and shape
  into a descriptor, as the notebook prints \<^verbatim>\<open>input_tensor_info\<close> and
  \<^verbatim>\<open>output_tensor_info\<close>. It checks nothing. In outline:
  \<^verbatim>\<open>
  def build_tensor_info(tensor):
      tensor_info = meta_graph_pb2.TensorInfo(
          dtype=dtypes.as_dtype(tensor.dtype).as_datatype_enum,
          tensor_shape=tensor.get_shape().as_proto())
      tensor_info.name = tensor.name
      return tensor_info
  \<close>
\<close>

fun build_tensor_info :: "tensor \<Rightarrow> tensor_info py" where
  "build_tensor_info (Tensor n s d) = ret \<lparr>name = n, dtype = d, tensor_shape = s\<rparr>"

subsection \<open>\<^verbatim>\<open>signature_constants\<close> and \<^verbatim>\<open>signature_def_utils\<close>\<close>

text \<open>The values are those the notebook prints in the two signatures and the server's log.\<close>

definition CLASSIFY_INPUTS :: string where
  "CLASSIFY_INPUTS = ''inputs''"

definition CLASSIFY_OUTPUT_SCORES :: string where
  "CLASSIFY_OUTPUT_SCORES = ''scores''"

definition CLASSIFY_METHOD_NAME :: string where
  "CLASSIFY_METHOD_NAME = ''tensorflow/serving/classify''"

definition PREDICT_METHOD_NAME :: string where
  "PREDICT_METHOD_NAME = ''tensorflow/serving/predict''"

definition SERVING :: string where
  "SERVING = ''serve''"

text \<open>
  \<^verbatim>\<open>build_signature_def(inputs, outputs, method_name)\<close> copies every item of the two
  dicts into a fresh \<^verbatim>\<open>SignatureDef\<close> and sets the method name. It has no
  \<^verbatim>\<open>raise\<close> and touches no file. In outline:
  \<^verbatim>\<open>
  def build_signature_def(inputs=None, outputs=None, method_name=None):
      signature_def = meta_graph_pb2.SignatureDef()
      for item in inputs:
          signature_def.inputs[item].CopyFrom(inputs[item])
      for item in outputs:
          signature_def.outputs[item].CopyFrom(outputs[item])
      signature_def.method_name = method_name
      return signature_def
  \<close>
\<close>

definition build_signature_def ::
  "(string \<times> tensor_info) list \<Rightarrow> (string \<times> tensor_info) list \<Rightarrow> string \<Rightarrow> signature_def py" where
  "build_signature_def ins outs m =
     ret \<lparr>inputs = fold (\<lambda>(k, v). AList.update k v) ins [],
          outputs = fold (\<lambda>(k, v). AList.update k v) outs [],
          method_name = m\<rparr>"

subsection \<open>\<^verbatim>\<open>SavedModelBuilder\<close>\<close>

record builder =
  export_dir :: string
  saved_model_proto :: saved_model
  has_saved_variables :: bool

definition already_exists :: "string \<Rightarrow> py_error" where
  "already_exists p =
     AssertionError (''Export directory already exists. Please specify a different export directory: '' @ p)"

text \<open>
  The constructor refuses a directory that exists, before it touches anything, and
  otherwise creates the directory at once. In outline:
  \<^verbatim>\<open>
  def __init__(self, export_dir):
      self._saved_model = saved_model_pb2.SavedModel()
      self._export_dir = export_dir
      if file_io.file_exists(export_dir):
          raise AssertionError(
              "Export directory already exists. Please specify a different "
              "export directory: %s" % export_dir)
      file_io.recursive_create_dir(self._export_dir)
      self._has_saved_variables = False
  \<close>
\<close>

definition SavedModelBuilder :: "string \<Rightarrow> builder py" where
  "SavedModelBuilder p =
     bind (file_exists p) (\<lambda>e.
       if e then raise (already_exists p)
       else bind (recursive_create_dir p) (\<lambda>_.
         ret \<lparr>export_dir = p, saved_model_proto = [], has_saved_variables = False\<rparr>))"

text \<open>
  The checks on a signature map: every descriptor in it names a tensor and has its dtype
  set. No key of the map is required. In outline:
  \<^verbatim>\<open>
  def _validate_tensor_info(self, tensor_info):
      if tensor_info.WhichOneof("encoding") is None:
          raise AssertionError(
              "All TensorInfo protos used in the SignatureDefs must have one of "
              "the 'encoding' fields (e.g., name or coo_sparse) set: %s"
              % tensor_info)
      if tensor_info.dtype is types_pb2.DT_INVALID:
          raise AssertionError(
              "All TensorInfo protos used in the SignatureDefs must have the "
              "dtype field set: %s" % tensor_info)

  def _validate_signature_def_map(self, signature_def_map):
      for signature_def_key in signature_def_map:
          signature_def = signature_def_map[signature_def_key]
          for inputs_key in signature_def.inputs:
              self._validate_tensor_info(signature_def.inputs[inputs_key])
          for outputs_key in signature_def.outputs:
              self._validate_tensor_info(signature_def.outputs[outputs_key])
  \<close>
\<close>

definition validate_tensor_info :: "tensor_info \<Rightarrow> unit py" where
  "validate_tensor_info t =
     (if name t = []
      then raise (AssertionError
        ''All TensorInfo protos used in the SignatureDefs must have one of the encoding fields set'')
      else if dtype t = DT_INVALID
      then raise (AssertionError
        ''All TensorInfo protos used in the SignatureDefs must have the dtype field set'')
      else ret ())"

definition validate_signature_def_map :: "(string \<times> signature_def) list \<Rightarrow> unit py" where
  "validate_signature_def_map sm =
     for_each (\<lambda>(k, s).
       bind (for_each (\<lambda>(r, t). validate_tensor_info t) (inputs s)) (\<lambda>_.
         for_each (\<lambda>(r, t). validate_tensor_info t) (outputs s))) sm"

text \<open>
  \<^verbatim>\<open>add_meta_graph_and_variables\<close>: the graph of the notebook has no variables and
  no assets (the notebook's log: "No assets to save", and the server's: "The specified
  SavedModel has no variables"), so what reaches the disk is the empty
  \<^verbatim>\<open>variables\<close> directory; the tagged meta graph with its signature map stays
  in the builder until \<^verbatim>\<open>save\<close>. The graph definition itself is not part of
  the model. In outline:
  \<^verbatim>\<open>
  def add_meta_graph_and_variables(self, sess, tags, signature_def_map=None, ...):
      if self._has_saved_variables:
          raise AssertionError("Graph state including variables and assets has "
                               "already been saved. ...")
      self._validate_signature_def_map(signature_def_map)
      variables_dir = os.path.join(self._export_dir, "variables")
      if not file_io.file_exists(variables_dir):
          file_io.recursive_create_dir(variables_dir)
      ...
      self._tag_and_add_meta_graph(meta_graph_def, tags, signature_def_map)
      self._has_saved_variables = True
  \<close>
\<close>

definition add_meta_graph_and_variables ::
  "builder \<Rightarrow> string list \<Rightarrow> (string \<times> signature_def) list \<Rightarrow> builder py" where
  "add_meta_graph_and_variables b tgs sm =
     (if has_saved_variables b
      then raise (AssertionError ''Graph state including variables and assets has already been saved'')
      else bind (validate_signature_def_map sm) (\<lambda>_.
        bind (file_exists (os_path_join (export_dir b) [''variables''])) (\<lambda>e.
        bind (if e then ret () else recursive_create_dir (os_path_join (export_dir b) [''variables''])) (\<lambda>_.
          ret (b\<lparr>saved_model_proto := saved_model_proto b @ [\<lparr>tags = tgs, signature_defs = sm\<rparr>],
                 has_saved_variables := True\<rparr>)))))"

text \<open>
  \<^verbatim>\<open>save\<close> writes \<^verbatim>\<open>saved_model.pb\<close> and returns its path; the
  notebook's log shows it: "SavedModel written to: ../models/tf_emnist/1/saved_model.pb".
  In outline:
  \<^verbatim>\<open>
  def save(self, as_text=False):
      if not file_io.file_exists(self._export_dir):
          file_io.recursive_create_dir(self._export_dir)
      path = os.path.join(self._export_dir, "saved_model.pb")
      file_io.write_string_to_file(path, self._saved_model.SerializeToString())
      return path
  \<close>
\<close>

definition save :: "builder \<Rightarrow> string py" where
  "save b =
     bind (file_exists (export_dir b)) (\<lambda>e.
     bind (if e then ret () else recursive_create_dir (export_dir b)) (\<lambda>_.
     bind (write_string_to_file (os_path_join (export_dir b) [''saved_model.pb''])
             (SavedModelPb (saved_model_proto b))) (\<lambda>_.
       ret (os_path_join (export_dir b) [''saved_model.pb'']))))"

subsection \<open>The notebook: purging the model directory and creating the builder\<close>

text \<open>
  \<^verbatim>\<open>
  export_path = '../models/tf_emnist/'
  if os.path.exists(export_path):
      shutil.rmtree(export_path)

  model_version = 1
  model_name = 'tf_emnist'
  model_path = os.path.join('..', 'models', model_name, str(model_version))
  builder = tf.saved_model.builder.SavedModelBuilder(model_path)
  \<close>
\<close>

definition export_path :: string where
  "export_path = ''../models/tf_emnist/''"

definition model_version :: nat where
  "model_version = 1"

definition model_name :: string where
  "model_name = ''tf_emnist''"

definition model_path :: string where
  "model_path = os_path_join ''..'' [''models'', model_name, str model_version]"

definition purge :: "unit py" where
  "purge = bind (os_path_exists export_path) (\<lambda>e. if e then shutil_rmtree export_path else ret ())"

definition create_builder :: "builder py" where
  "create_builder = bind purge (\<lambda>_. SavedModelBuilder model_path)"

subsection \<open>The notebook: descriptors and signatures\<close>

text \<open>
  \<^verbatim>\<open>
  input_tensor = dnn_model_tf.predict_net.graph.get_tensor_by_name(
                              'flattened_rescaled_img_28x28:0')
  output_tensor = dnn_model_tf.predict_net.graph.get_tensor_by_name('Softmax:0')

  input_tensor_info = build_tensor_info(input_tensor)
  output_tensor_info = build_tensor_info(output_tensor)
  \<close>
\<close>

definition tensor_infos :: "graph \<Rightarrow> (tensor_info \<times> tensor_info) py" where
  "tensor_infos g =
     bind (get_tensor_by_name g ''flattened_rescaled_img_28x28:0'') (\<lambda>input_tensor.
     bind (get_tensor_by_name g ''Softmax:0'') (\<lambda>output_tensor.
     bind (build_tensor_info input_tensor) (\<lambda>input_tensor_info.
     bind (build_tensor_info output_tensor) (\<lambda>output_tensor_info.
       ret (input_tensor_info, output_tensor_info)))))"

text \<open>
  \<^verbatim>\<open>
  classification_signature = (
      signature_def_utils.build_signature_def(
          inputs={signature_constants.CLASSIFY_INPUTS: input_tensor_info},
          outputs={signature_constants.CLASSIFY_OUTPUT_SCORES: output_tensor_info},
          method_name=signature_constants.CLASSIFY_METHOD_NAME))
  prediction_signature = (
      signature_def_utils.build_signature_def(
          inputs={'images': input_tensor_info},
          outputs={'scores': output_tensor_info},
          method_name=signature_constants.PREDICT_METHOD_NAME))
  \<close>
\<close>

definition classification_signature :: "tensor_info \<Rightarrow> tensor_info \<Rightarrow> signature_def py" where
  "classification_signature input_tensor_info output_tensor_info =
     build_signature_def
       (AList.update CLASSIFY_INPUTS input_tensor_info [])
       (AList.update CLASSIFY_OUTPUT_SCORES output_tensor_info [])
       CLASSIFY_METHOD_NAME"

definition prediction_signature :: "tensor_info \<Rightarrow> tensor_info \<Rightarrow> signature_def py" where
  "prediction_signature input_tensor_info output_tensor_info =
     build_signature_def
       (AList.update ''images'' input_tensor_info [])
       (AList.update ''scores'' output_tensor_info [])
       PREDICT_METHOD_NAME"

subsection \<open>The notebook: adding the signatures and exporting\<close>

text \<open>
  \<^verbatim>\<open>
  with dnn_model_tf.predict_net.graph.as_default():
      with tf.Session() as sess:
          builder.add_meta_graph_and_variables(
            sess, [tf.saved_model.tag_constants.SERVING],
            signature_def_map={
                'predict_images':
                    prediction_signature,
                signature_constants.DEFAULT_SERVING_SIGNATURE_DEF_KEY:
                    classification_signature,
            },
            main_op=tf.tables_initializer(),
            strip_default_attrs=True)
          builder.save()
  \<close>
  The notebook never shows the value of \<^verbatim>\<open>DEFAULT_SERVING_SIGNATURE_DEF_KEY\<close>:
  it is the parameter \<open>default_key\<close>.
\<close>

definition signature_def_map ::
  "string \<Rightarrow> signature_def \<Rightarrow> signature_def \<Rightarrow> (string \<times> signature_def) list" where
  "signature_def_map default_key prediction classification =
     AList.update default_key classification (AList.update ''predict_images'' prediction [])"

definition add_and_save :: "builder \<Rightarrow> (string \<times> signature_def) list \<Rightarrow> string py" where
  "add_and_save b sm = bind (add_meta_graph_and_variables b [SERVING] sm) (\<lambda>b'. save b')"

text \<open>The exporter on its own: a builder for a target directory, one meta graph, \<^verbatim>\<open>save\<close>.\<close>

definition export_bundle :: "string \<Rightarrow> (string \<times> signature_def) list \<Rightarrow> string py" where
  "export_bundle p sm = bind (SavedModelBuilder p) (\<lambda>b. add_and_save b sm)"

text \<open>The cells in the order the notebook runs them.\<close>

definition notebook_export :: "graph \<Rightarrow> string \<Rightarrow> string py" where
  "notebook_export g default_key =
     bind create_builder (\<lambda>b.
     bind (tensor_infos g) (\<lambda>(input_tensor_info, output_tensor_info).
     bind (classification_signature input_tensor_info output_tensor_info) (\<lambda>classification.
     bind (prediction_signature input_tensor_info output_tensor_info) (\<lambda>prediction.
       add_and_save b (signature_def_map default_key prediction classification)))))"

text \<open>The tensors of the converted graph, as the notebook records \<^verbatim>\<open>tensor_dict\<close>.\<close>

definition recorded_graph :: graph where
  "recorded_graph =
     [Tensor ''Const:0'' [512, 784] DT_FLOAT,
      Tensor ''Const_1:0'' [512] DT_FLOAT,
      Tensor ''Const_2:0'' [256, 512] DT_FLOAT,
      Tensor ''Const_3:0'' [256] DT_FLOAT,
      Tensor ''Const_4:0'' [62, 256] DT_FLOAT,
      Tensor ''Const_5:0'' [62] DT_FLOAT,
      Tensor ''flattened_rescaled_img_28x28:0'' [1, 784] DT_FLOAT,
      Tensor ''add:0'' [1, 512] DT_FLOAT,
      Tensor ''add_1:0'' [1, 512] DT_FLOAT,
      Tensor ''add_2:0'' [1, 256] DT_FLOAT,
      Tensor ''add_3:0'' [1, 256] DT_FLOAT,
      Tensor ''add_4:0'' [1, 62] DT_FLOAT,
      Tensor ''Softmax:0'' [1, 62] DT_FLOAT]"

subsection \<open>\<^verbatim>\<open>requests\<close>, JSON and \<^verbatim>\<open>numpy.argmax\<close>\<close>

text \<open>
  A number as \<^verbatim>\<open>json\<close> decodes it into a float: a finite value, an infinity
  (\<^verbatim>\<open>Infinity\<close>, or a literal too large for a float) or \<^verbatim>\<open>NaN\<close>.
  Integers that no float holds are outside the model.
\<close>

datatype number = Finite real | PosInf | NegInf | NaN

text \<open>The comparison \<^verbatim>\<open><=\<close> of floats: false as soon as one side is NaN.\<close>

fun le :: "number \<Rightarrow> number \<Rightarrow> bool" where
  "le NaN y = False"
| "le x NaN = False"
| "le NegInf y = True"
| "le x PosInf = True"
| "le (Finite a) (Finite b) = (a \<le> b)"
| "le PosInf y = False"
| "le (Finite a) NegInf = False"

text \<open>
  A decoded document: a number or a list of numbers and lists, nested to any depth; a
  string; or an object. JSON \<^verbatim>\<open>null\<close>, booleans and lists that hold strings or
  objects are outside the model.
\<close>

datatype numeric = Num number | List "numeric list"

datatype json = JNumeric numeric | JStr string | JObj "(string \<times> json) list"

text \<open>
  An HTTP response: its status code and what \<^verbatim>\<open>r.json()\<close> decodes from the body,
  \<open>None\<close> for a body that is not JSON.
\<close>

record response =
  status_code :: nat
  body :: "json option"

text \<open>
  What the network does with one request is the cell's input: no connection can be made,
  the server accepts the request and never answers, or a response arrives.
\<close>

datatype exchange = Refused | Silent | Replied response

text \<open>
  \<^verbatim>\<open>requests.get(url)\<close> and \<^verbatim>\<open>requests.post(url, data=...)\<close> as the
  notebook calls them, with no \<^verbatim>\<open>timeout=\<close>: they raise
  \<^verbatim>\<open>ConnectionError\<close> when no connection can be made and wait without end for a
  server that does not answer, so the call does not return (\<open>None\<close>). They return a
  response of any status code: \<^verbatim>\<open>raise_for_status\<close> is never called.
\<close>

definition request :: "exchange \<Rightarrow> (py_error + response) option" where
  "request x =
     (case x of
        Refused \<Rightarrow> Some (Inl ConnectionError)
      | Silent \<Rightarrow> None
      | Replied r \<Rightarrow> Some (Inr r))"

definition response_json :: "response \<Rightarrow> py_error + json" where
  "response_json r = (case body r of None \<Rightarrow> Inl JSONDecodeError | Some j \<Rightarrow> Inr j)"

text \<open>
  Subscripting the decoded document with a string, \<^verbatim>\<open>r.json()['predictions']\<close>:
  a dict raises \<^verbatim>\<open>KeyError\<close> for a key it lacks, anything else raises
  \<^verbatim>\<open>TypeError\<close>.
\<close>

fun getitem :: "json \<Rightarrow> string \<Rightarrow> py_error + json" where
  "getitem (JObj kv) k = (case map_of kv k of None \<Rightarrow> Inl (KeyError k) | Some v \<Rightarrow> Inr v)"
| "getitem (JNumeric n) k = Inl TypeError"
| "getitem (JStr s) k = Inl TypeError"

text \<open>
  \<^verbatim>\<open>numpy.argmax(a)\<close> with no axis: \<open>a\<close> becomes an array and the array is
  read flat in row-major order. Nested lists whose parts differ in shape make no array
  (\<^verbatim>\<open>ValueError\<close>), and an array with no entry has no arg-max
  (\<^verbatim>\<open>ValueError\<close>). A value that is no list, be it a number, a string or a dict,
  is an array of one entry, and the answer is 0.
\<close>

fun dims :: "numeric \<Rightarrow> nat list option" where
  "dims (Num x) = Some []"
| "dims (List xs) =
     (case those (map dims xs) of
        None \<Rightarrow> None
      | Some [] \<Rightarrow> Some [0]
      | Some (d # ds) \<Rightarrow> if list_all (\<lambda>e. e = d) ds then Some (length xs # d) else None)"

fun flat :: "numeric \<Rightarrow> number list" where
  "flat (Num x) = [x]"
| "flat (List xs) = concat (map flat xs)"

text \<open>
  The scan over the flat array: the best index \<open>b\<close> and value \<open>v\<close> so far, the
  next index, the entries to go. In outline:
  \<^verbatim>\<open>
  mp = ip[0]; *max_ind = 0;
  if (npy_isnan(mp)) return 0;
  for (i = 1; i < n; i++) {
      ip++;
      if (!(*ip <= mp)) {
          mp = *ip; *max_ind = i;
          if (npy_isnan(mp)) break;
      }
  }
  \<close>
  So the answer is the index of the first NaN, and with no NaN the first index of the
  largest entry.
\<close>

fun argmax_from :: "nat \<Rightarrow> number \<Rightarrow> nat \<Rightarrow> number list \<Rightarrow> nat" where
  "argmax_from b v i [] = b"
| "argmax_from b v i (x # xs) =
     (if v = NaN then b
      else if le x v then argmax_from b v (Suc i) xs
      else argmax_from i x (Suc i) xs)"

fun np_argmax :: "json \<Rightarrow> py_error + nat" where
  "np_argmax (JNumeric a) =
     (case dims a of
        None \<Rightarrow> Inl ValueError
      | Some d \<Rightarrow>
          (case flat a of
             [] \<Rightarrow> Inl ValueError
           | x # xs \<Rightarrow> Inr (argmax_from 0 x 1 xs)))"
| "np_argmax (JStr s) = Inr 0"
| "np_argmax (JObj kv) = Inr 0"

subsection \<open>The notebook: status and predict requests\<close>

text \<open>
  \<^verbatim>\<open>
  r = requests.get("http://localhost:8501/v1/models/tf_emnist")
  print("HTTP Response Status Code: {}".format(r.status_code))
  print(r.json())
  \<close>
  The cell has no \<^verbatim>\<open>try\<close>. Its result is what it prints, or the exception
  that leaves it; \<open>None\<close> is a cell that does not return.
\<close>

definition status_cell :: "exchange \<Rightarrow> (py_error + nat \<times> json) option" where
  "status_cell x =
     (case request x of
        None \<Rightarrow> None
      | Some (Inl e) \<Rightarrow> Some (Inl e)
      | Some (Inr r) \<Rightarrow>
          (case response_json r of
             Inl e \<Rightarrow> Some (Inl e)
           | Inr j \<Rightarrow> Some (Inr (status_code r, j))))"

text \<open>
  \<^verbatim>\<open>
  r = requests.post("http://localhost:8501/v1/models/tf_emnist:predict",
                    data=json.dumps(data_payload))
  print("HTTP Response Status Code: {}".format(r.status_code))
  print("HTTP Response content as json:")
  print(r.json())
  print("Class Index Prediction: {}".format(np.argmax(r.json()['predictions'])))
  \<close>
  Neither cell has a \<^verbatim>\<open>try\<close>. The last component of the result is the class
  index the second cell prints.
\<close>

definition predict_cell :: "exchange \<Rightarrow> (py_error + nat \<times> json \<times> nat) option" where
  "predict_cell x =
     (case request x of
        None \<Rightarrow> None
      | Some (Inl e) \<Rightarrow> Some (Inl e)
      | Some (Inr r) \<Rightarrow>
          (case response_json r of
             Inl e \<Rightarrow> Some (Inl e)
           | Inr j \<Rightarrow>
               (case getitem j ''predictions'' of
                  Inl e \<Rightarrow> Some (Inl e)
                | Inr p \<Rightarrow>
                    (case np_argmax p of
                       Inl e \<Rightarrow> Some (Inl e)
                     | Inr i \<Rightarrow> Some (Inr (status_code r, j, i))))))"

subsection \<open>The accuracy evaluation\<close>

text \<open>
  \<^verbatim>\<open>
  request_url = "http://localhost:8501/v1/models/tf_emnist:predict"
  _ = eval_serving_performance(n_examples=1000, n_print_examples=10,
                               request_url=request_url, dataset='test')
  \<close>
  The notebook imports \<^verbatim>\<open>eval_serving_performance\<close> from
  \<^verbatim>\<open>emnist_dl2prod.utils\<close>, which is not among the sources. What follows is
  what the specification says of it.
\<close>

text \<open>
  Modelled from the spec: the kinds of failure of one request of
  \<^verbatim>\<open>eval_serving_performance\<close>, whose code is missing: "connection refused,
  timeout, non-2xx, malformed JSON", the timeout being "a distinct, non-fatal failure
  kind".
\<close>

datatype failure = ConnectionRefused | TimedOut | NonSuccess nat | MalformedJSON

text \<open>
  Modelled from the spec: one "score vector" as \<^verbatim>\<open>eval_serving_performance\<close>,
  whose code is missing, reads it from a decoded response: a list of numbers.
\<close>

fun score_vector :: "numeric \<Rightarrow> number list option" where
  "score_vector (Num x) = None"
| "score_vector (List xs) = those (map (\<lambda>e. case e of Num v \<Rightarrow> Some v | List ys \<Rightarrow> None) xs)"

text \<open>
  Modelled from the spec: how \<^verbatim>\<open>eval_serving_performance\<close>, whose code is
  missing, reads a decoded response: "decode the JSON response's predictions field as a
  sequence of per-example score vectors".
\<close>

fun score_vectors :: "json \<Rightarrow> number list list option" where
  "score_vectors (JObj kv) =
     (case map_of kv ''predictions'' of
        Some (JNumeric (List rows)) \<Rightarrow> those (map score_vector rows)
      | _ \<Rightarrow> None)"
| "score_vectors (JNumeric n) = None"
| "score_vectors (JStr s) = None"

text \<open>
  Modelled from the spec: the request \<^verbatim>\<open>eval_serving_performance\<close>, whose code is
  missing, makes for one example, with a timeout, and the class it predicts: "take the
  arg-max index of each score vector as the predicted class". Errors "are caught
  per-request", so the result is a failure or a class, never an exception. A response
  that does not hold the one score vector of the one example counts as malformed.
\<close>

definition predicted_class :: "exchange \<Rightarrow> failure + nat" where
  "predicted_class x =
     (case x of
        Refused \<Rightarrow> Inl ConnectionRefused
      | Silent \<Rightarrow> Inl TimedOut
      | Replied r \<Rightarrow>
          if 200 \<le> status_code r \<and> status_code r < 300
          then (case body r of
                  None \<Rightarrow> Inl MalformedJSON
                | Some j \<Rightarrow>
                    (case score_vectors j of
                       Some [v # vs] \<Rightarrow> Inr (argmax_from 0 v 1 vs)
                     | _ \<Rightarrow> Inl MalformedJSON))
          else Inl (NonSuccess (status_code r)))"

text \<open>
  Modelled from the spec: the running count of \<^verbatim>\<open>eval_serving_performance\<close>,
  whose code is missing: the numerator and the denominator of the "running accuracy
  fraction", and the failed requests, each "logged with the offending request's
  identifying info (example index)".
\<close>

record tally =
  correct :: nat
  total :: nat
  failures :: "(nat \<times> failure) list"

text \<open>
  Modelled from the spec: the loop of \<^verbatim>\<open>eval_serving_performance\<close>, whose code
  is missing, over the examples, each the exchange of its request and its label:
  "compare against ground truth labels, accumulating a running accuracy fraction"; "a
  single failed request is recorded as a miss and evaluation continues".
\<close>

fun eval_loop :: "nat \<Rightarrow> (exchange \<times> nat) list \<Rightarrow> tally \<Rightarrow> tally" where
  "eval_loop i [] t = t"
| "eval_loop i ((x, label) # rest) t =
     eval_loop (Suc i) rest
       (case predicted_class x of
          Inl f \<Rightarrow> t\<lparr>total := total t + 1, failures := failures t @ [(i, f)]\<rparr>
        | Inr c \<Rightarrow> t\<lparr>correct := correct t + (if c = label then 1 else 0), total := total t + 1\<rparr>)"

text \<open>
  Modelled from the spec: \<^verbatim>\<open>eval_serving_performance\<close>, whose code is missing,
  starts the loop at the first example with nothing counted.
\<close>

definition eval_serving_performance :: "(exchange \<times> nat) list \<Rightarrow> tally" where
  "eval_serving_performance examples = eval_loop 0 examples \<lparr>correct = 0, total = 0, failures = []\<rparr>"

section \<open>Properties\<close>

lemmas py_defs = ret_def raise_def bind_def

subsection \<open>Path strings\<close>

lemma split_on_nonempty: "split_on s xs \<noteq> []"
  by (induction xs) (auto split: list.splits)

lemma split_on_append:
  "split_on s (a @ s # b) = split_on s a @ split_on s b"
proof (induction a)
  case Nil
  then show ?case by simp
next
  case (Cons c a)
  then show ?case
    using split_on_nonempty [of s a] by (cases "split_on s a") auto
qed

lemma split_on_no_sep: "s \<notin> set w \<Longrightarrow> split_on s w = [w]"
  by (induction w) auto

lemma components_append:
  "components (a @ CHR ''/'' # b) = components a @ components b"
  by (simp add: components_def split_on_append)

lemma components_name: "CHR ''/'' \<notin> set w \<Longrightarrow> w \<noteq> [] \<Longrightarrow> components w = [w]"
  by (simp add: components_def split_on_no_sep)

lemma components_Nil: "components [] = []"
  by (simp add: components_def)

lemma components_trailing: "components (a @ [CHR ''/'']) = components a"
  using components_append [of a "[]"] by (simp add: components_Nil)

lemma components_join2:
  assumes "CHR ''/'' \<notin> set w" and "w \<noteq> []"
  shows "components (join2 a w) = components a @ [w]"
proof -
  have hd: "hd w \<noteq> CHR ''/''" using assms by (cases w) auto
  show ?thesis
  proof (cases "a = []")
    case True
    then show ?thesis using assms hd by (simp add: join2_def components_name components_Nil)
  next
    case False
    show ?thesis
    proof (cases "last a = CHR ''/''")
      case True
      then obtain a' where a: "a = a' @ [CHR ''/'']"
        using False by (metis append_butlast_last_id)
      have "components (a @ w) = components a' @ components w"
        using components_append [of a' w] by (simp add: a)
      then show ?thesis
        using assms hd True False by (simp add: join2_def a components_trailing components_name)
    next
      case l: False
      then show ?thesis
        using assms hd False by (simp add: join2_def components_append components_name)
    qed
  qed
qed

lemma str_digits: "set (str n) \<subseteq> set ''0123456789'' \<and> str n \<noteq> []"
proof (induction n rule: str.induct)
  case (1 n)
  have d: "\<And>k. k < 10 \<Longrightarrow> ''0123456789'' ! k \<in> set ''0123456789''"
    by (rule nth_mem) simp
  show ?case
  proof (cases "n < 10")
    case True
    then show ?thesis using d [of n] by (subst str.simps, subst (2) str.simps) (simp del: str.simps)
  next
    case False
    have "n mod 10 < 10" by simp
    then show ?thesis using 1 False d [of "n mod 10"]
      by (subst str.simps, subst (2) str.simps) (simp del: str.simps)
  qed
qed

lemma str_no_sep: "CHR ''/'' \<notin> set (str n)"
  using str_digits [of n] by auto

lemma components_join_name:
  "CHR ''/'' \<notin> set w \<Longrightarrow> w \<noteq> [] \<Longrightarrow> components (os_path_join a [w]) = components a @ [w]"
  by (simp add: os_path_join_def components_join2)

subsection \<open>The file system\<close>

lemma lookup_append:
  "lookup fs (p @ q) = (case lookup fs p of None \<Rightarrow> None | Some n \<Rightarrow> lookup n q)"
  by (induction fs p rule: lookup.induct) (auto split: option.splits)

lemma lookup_remove: "p \<noteq> [] \<Longrightarrow> lookup (remove fs p) (p @ q) = None"
  by (induction fs p rule: remove.induct) (auto split: option.splits)

lemma mkdirs_lookup:
  "mkdirs fs p = Inr fs' \<Longrightarrow>
     lookup fs' p = (case lookup fs p of None \<Rightarrow> Some (Dir Map.empty) | Some n \<Rightarrow> Some n)"
proof (induction fs p arbitrary: fs' rule: mkdirs.induct)
  case (1 x cs)
  then show ?case by simp
next
  case (2 m)
  then show ?case by auto
next
  case (3 m c cs)
  then show ?case
    by (cases cs) (auto split: option.splits sum.splits)
qed

lemma mkdirs_child:
  "lookup fs p = Some (Dir m) \<Longrightarrow> m c = None \<Longrightarrow>
     \<exists>fs'. mkdirs fs (p @ [c]) = Inr fs' \<and> lookup fs' p = Some (Dir (m(c \<mapsto> Dir Map.empty)))"
  by (induction fs p rule: lookup.induct) (auto split: option.splits sum.splits)

lemma write_file_Cons:
  "cs \<noteq> [] \<Longrightarrow> write_file (Dir m) (c # cs) x =
     (case m c of
        None \<Rightarrow> Inl (OSError ''No such file or directory'')
      | Some n \<Rightarrow>
          (case write_file n cs x of
             Inl e \<Rightarrow> Inl e
           | Inr n' \<Rightarrow> Inr (Dir (m(c \<mapsto> n')))))"
  by (cases cs) auto

lemma write_file_child:
  "lookup fs p = Some (Dir m) \<Longrightarrow> m c = None \<or> (\<exists>y. m c = Some (File y)) \<Longrightarrow>
     \<exists>fs'. write_file fs (p @ [c]) x = Inr fs' \<and> lookup fs' p = Some (Dir (m(c \<mapsto> File x)))"
proof (induction fs p rule: lookup.induct)
  case (1 n)
  then show ?case by (auto simp: fun_eq_iff)
next
  case (2 y a cs)
  then show ?case by simp
next
  case (3 ma a cs)
  then show ?case
    by (auto simp: write_file_Cons split: option.splits sum.splits)
qed

lemma mkdirs_error: "mkdirs fs p = Inl e \<Longrightarrow> e = OSError ''Not a directory''"
  by (induction fs p arbitrary: e rule: mkdirs.induct) (auto split: sum.splits)

subsection \<open>The builder and the exporter\<close>

lemma for_each_validate:
  "\<forall>(r, t) \<in> set xs. name t \<noteq> [] \<and> dtype t \<noteq> DT_INVALID \<Longrightarrow>
     for_each (\<lambda>(r, t). validate_tensor_info t) xs fs = (Inr (), fs)"
  by (induction xs) (auto simp: py_defs validate_tensor_info_def)

lemma validate_signature_def_map_ok:
  "\<forall>(k, s) \<in> set sm. \<forall>(r, t) \<in> set (inputs s @ outputs s). name t \<noteq> [] \<and> dtype t \<noteq> DT_INVALID \<Longrightarrow>
     validate_signature_def_map sm fs = (Inr (), fs)"
proof (induction sm)
  case Nil
  then show ?case by (simp add: validate_signature_def_map_def ret_def)
next
  case (Cons a sm)
  obtain k s where a: "a = (k, s)" by (cases a)
  have i: "for_each (\<lambda>(r, t). validate_tensor_info t) (inputs s) fs = (Inr (), fs)"
    using Cons.prems a by (intro for_each_validate) auto
  have o: "for_each (\<lambda>(r, t). validate_tensor_info t) (outputs s) fs = (Inr (), fs)"
    using Cons.prems a by (intro for_each_validate) auto
  have "validate_signature_def_map sm fs = (Inr (), fs)"
    using Cons by simp
  then show ?case
    using i o by (simp add: validate_signature_def_map_def a bind_def)
qed

lemma SavedModelBuilder_cases:
  "SavedModelBuilder p fs =
     (if lookup fs (components p) \<noteq> None then (Inl (already_exists p), fs)
      else case mkdirs fs (components p) of
             Inl e \<Rightarrow> (Inl e, fs)
           | Inr fs' \<Rightarrow> (Inr \<lparr>export_dir = p, saved_model_proto = [], has_saved_variables = False\<rparr>, fs'))"
  by (simp add: SavedModelBuilder_def py_defs file_exists_def recursive_create_dir_def split: sum.splits)

lemma export_bundle_ok:
  assumes new: "lookup fs (components P) = None"
    and mk: "mkdirs fs (components P) = Inr fs1"
    and valid: "\<forall>(k, s) \<in> set sm. \<forall>(r, t) \<in> set (inputs s @ outputs s). name t \<noteq> [] \<and> dtype t \<noteq> DT_INVALID"
  shows "\<exists>fs3. export_bundle P sm fs = (Inr (os_path_join P [''saved_model.pb'']), fs3)
           \<and> lookup fs3 (components P) =
               Some (Dir [''variables'' \<mapsto> Dir Map.empty,
                          ''saved_model.pb'' \<mapsto> File (SavedModelPb [\<lparr>tags = [SERVING], signature_defs = sm\<rparr>])])"
proof -
  let ?b0 = "\<lparr>export_dir = P, saved_model_proto = [], has_saved_variables = False\<rparr>"
  let ?mg = "\<lparr>tags = [SERVING], signature_defs = sm\<rparr>"
  let ?b1 = "\<lparr>export_dir = P, saved_model_proto = [?mg], has_saved_variables = True\<rparr>"
  have cv: "components (os_path_join P [''variables'']) = components P @ [''variables'']"
    by (rule components_join_name) auto
  have cp: "components (os_path_join P [''saved_model.pb'']) = components P @ [''saved_model.pb'']"
    by (rule components_join_name) auto
  have b: "SavedModelBuilder P fs = (Inr ?b0, fs1)"
    using new mk by (simp add: SavedModelBuilder_def py_defs file_exists_def recursive_create_dir_def)
  have l1: "lookup fs1 (components P) = Some (Dir Map.empty)"
    using mkdirs_lookup [OF mk] new by simp
  obtain fs2 where mk2: "mkdirs fs1 (components P @ [''variables'']) = Inr fs2"
    and l2: "lookup fs2 (components P) = Some (Dir [''variables'' \<mapsto> Dir Map.empty])"
    using mkdirs_child [OF l1, of "''variables''"] by auto
  have nv: "lookup fs1 (components P @ [''variables'']) = None"
    using l1 by (simp add: lookup_append)
  have a: "add_meta_graph_and_variables ?b0 [SERVING] sm fs1 = (Inr ?b1, fs2)"
    using validate_signature_def_map_ok [OF valid, of fs1] nv mk2
    by (simp add: add_meta_graph_and_variables_def py_defs file_exists_def recursive_create_dir_def cv)
  obtain fs3 where w: "write_file fs2 (components P @ [''saved_model.pb'']) (SavedModelPb [?mg]) = Inr fs3"
    and l3: "lookup fs3 (components P) =
       Some (Dir [''variables'' \<mapsto> Dir Map.empty, ''saved_model.pb'' \<mapsto> File (SavedModelPb [?mg])])"
    using write_file_child [OF l2, of "''saved_model.pb''" "SavedModelPb [?mg]"] by auto
  have s: "save ?b1 fs2 = (Inr (os_path_join P [''saved_model.pb'']), fs3)"
    using l2 w by (simp add: save_def py_defs file_exists_def write_string_to_file_def cp)
  show ?thesis
    using b a s l3 by (simp add: export_bundle_def add_and_save_def bind_def)
qed

subsection \<open>The purge\<close>

lemma components_export_path: "components export_path = [''..'', ''models'', ''tf_emnist'']"
  by (simp add: export_path_def components_def)

lemma components_version_path:
  "components (os_path_join ''..'' [''models'', model_name, str v]) = components export_path @ [str v]"
proof -
  have "os_path_join ''..'' [''models'', model_name, str v] = os_path_join ''../models/tf_emnist'' [str v]"
    by (simp add: os_path_join_def join2_def model_name_def)
  moreover have "components ''../models/tf_emnist'' = [''..'', ''models'', ''tf_emnist'']"
    by (simp add: components_def)
  ultimately show ?thesis
    using str_digits [of v] str_no_sep [of v]
    by (simp add: components_join_name components_export_path)
qed

lemma model_path_eq: "model_path = ''../models/tf_emnist/1''"
  by (simp add: model_path_def os_path_join_def join2_def model_name_def model_version_def str.simps)

lemma purge_eq:
  "purge fs =
     (Inr (), case lookup fs (components export_path) of
                Some (Dir m) \<Rightarrow> remove fs (components export_path)
              | _ \<Rightarrow> fs)"
  by (simp add: purge_def py_defs os_path_exists_def shutil_rmtree_def export_path_def
      split: option.splits node.splits)

lemma purge_below: "lookup (snd (purge fs)) (components export_path @ c # q) = None"
proof (cases "lookup fs (components export_path)")
  case None
  then show ?thesis by (simp add: purge_eq lookup_append)
next
  case (Some n)
  show ?thesis
  proof (cases n)
    case (File x)
    then show ?thesis using Some by (simp add: purge_eq lookup_append)
  next
    case (Dir m)
    have "components export_path \<noteq> []" by (simp add: components_export_path)
    then show ?thesis using Some Dir by (simp add: purge_eq lookup_remove)
  qed
qed

lemma purge_no_dir: "lookup (snd (purge fs)) (components export_path) \<noteq> Some (Dir m)"
proof (cases "lookup fs (components export_path)")
  case None
  then show ?thesis by (simp add: purge_eq)
next
  case (Some n)
  show ?thesis
  proof (cases n)
    case (File x)
    then show ?thesis using Some by (simp add: purge_eq)
  next
    case (Dir m')
    have "components export_path \<noteq> []" by (simp add: components_export_path)
    then have "lookup (remove fs (components export_path)) (components export_path @ []) = None"
      by (rule lookup_remove)
    then show ?thesis using Some Dir by (simp add: purge_eq)
  qed
qed

lemma create_builder_eq: "create_builder fs = SavedModelBuilder model_path (snd (purge fs))"
  by (simp add: create_builder_def bind_def purge_eq)

lemma model_path_fresh: "lookup (snd (purge fs)) (components model_path) = None"
  using purge_below [of fs "str model_version" "[]"] components_version_path [of model_version]
  by (simp add: model_path_def)

subsection \<open>The signatures\<close>

lemma build_signature_def_single:
  "build_signature_def [(ki, inp)] [(ko, out)] m fs =
     (Inr \<lparr>inputs = [(ki, inp)], outputs = [(ko, out)], method_name = m\<rparr>, fs)"
  by (simp add: build_signature_def_def ret_def)

text \<open>The two signatures as the notebook prints them.\<close>

lemma classification_signature_eq:
  "classification_signature inp out fs =
     (Inr \<lparr>inputs = [(''inputs'', inp)], outputs = [(''scores'', out)],
           method_name = ''tensorflow/serving/classify''\<rparr>, fs)"
  by (simp add: classification_signature_def build_signature_def_single
      CLASSIFY_INPUTS_def CLASSIFY_OUTPUT_SCORES_def CLASSIFY_METHOD_NAME_def)

lemma prediction_signature_eq:
  "prediction_signature inp out fs =
     (Inr \<lparr>inputs = [(''images'', inp)], outputs = [(''scores'', out)],
           method_name = ''tensorflow/serving/predict''\<rparr>, fs)"
  by (simp add: prediction_signature_def build_signature_def_single PREDICT_METHOD_NAME_def)

text \<open>
  Claim C1. For descriptors with a set dtype and a shape of at least one dimension, the
  signature built from them holds exactly these descriptors under the given role keys,
  and the given method name: for \<^verbatim>\<open>build_signature_def\<close> with any keys and
  method name, and for the notebook's classification and prediction signatures. The
  last conjunct is the scenario with the descriptors \<open>x\<close> of shape [1, 784] and
  \<open>y\<close> of shape [1, 62], the keys \<open>images\<close> and \<open>scores\<close> and the
  predict method.
\<close>

theorem signature_echoes_descriptors:
  assumes "dtype inp \<noteq> DT_INVALID" and "tensor_shape inp \<noteq> []"
    and "dtype out \<noteq> DT_INVALID" and "tensor_shape out \<noteq> []"
  shows "(\<exists>s. build_signature_def (AList.update ki inp []) (AList.update ko out []) m fs = (Inr s, fs)
            \<and> map_of (inputs s) ki = Some inp \<and> map_of (outputs s) ko = Some out
            \<and> method_name s = m)
       \<and> (\<exists>s. classification_signature inp out fs = (Inr s, fs)
            \<and> map_of (inputs s) ''inputs'' = Some inp \<and> map_of (outputs s) ''scores'' = Some out)
       \<and> (\<exists>s. prediction_signature inp out fs = (Inr s, fs)
            \<and> map_of (inputs s) ''images'' = Some inp \<and> map_of (outputs s) ''scores'' = Some out)
       \<and> (\<exists>s. prediction_signature
                 \<lparr>name = ''x'', dtype = DT_FLOAT, tensor_shape = [1, 784]\<rparr>
                 \<lparr>name = ''y'', dtype = DT_FLOAT, tensor_shape = [1, 62]\<rparr> fs = (Inr s, fs)
            \<and> map_option name (map_of (inputs s) ''images'') = Some ''x''
            \<and> map_option tensor_shape (map_of (outputs s) ''scores'') = Some [1, 62]
            \<and> method_name s = PREDICT_METHOD_NAME)"
  by (simp add: build_signature_def_single classification_signature_eq prediction_signature_eq
      PREDICT_METHOD_NAME_def)

text \<open>
  The scenario of C1 once more, through \<^verbatim>\<open>build_signature_def\<close> itself and
  with the method name written \<open>PREDICT\<close>.
\<close>

theorem signature_echoes_descriptors_witness:
  "dtype \<lparr>name = ''x'', dtype = DT_FLOAT, tensor_shape = [1, 784]\<rparr> \<noteq> DT_INVALID
   \<and> tensor_shape \<lparr>name = ''x'', dtype = DT_FLOAT, tensor_shape = [1, 784]\<rparr> \<noteq> []
   \<and> dtype \<lparr>name = ''y'', dtype = DT_FLOAT, tensor_shape = [1, 62]\<rparr> \<noteq> DT_INVALID
   \<and> tensor_shape \<lparr>name = ''y'', dtype = DT_FLOAT, tensor_shape = [1, 62]\<rparr> \<noteq> []
   \<and> (\<exists>s. build_signature_def
              (AList.update ''images'' \<lparr>name = ''x'', dtype = DT_FLOAT, tensor_shape = [1, 784]\<rparr> [])
              (AList.update ''scores'' \<lparr>name = ''y'', dtype = DT_FLOAT, tensor_shape = [1, 62]\<rparr> [])
              ''PREDICT'' (Dir Map.empty) = (Inr s, Dir Map.empty)
          \<and> map_of (inputs s) ''images'' = Some \<lparr>name = ''x'', dtype = DT_FLOAT, tensor_shape = [1, 784]\<rparr>
          \<and> map_of (outputs s) ''scores'' = Some \<lparr>name = ''y'', dtype = DT_FLOAT, tensor_shape = [1, 62]\<rparr>
          \<and> method_name s = ''PREDICT'')"
  using signature_echoes_descriptors
    [of "\<lparr>name = ''x'', dtype = DT_FLOAT, tensor_shape = [1, 784]\<rparr>"
        "\<lparr>name = ''y'', dtype = DT_FLOAT, tensor_shape = [1, 62]\<rparr>"
        "''images''" "''scores''" "''PREDICT''" "Dir Map.empty"]
  by simp

text \<open>
  Claim C2. The classification signature has the one input key \<open>inputs\<close> and the
  one output key \<open>scores\<close>, the values of the reserved constants, whatever the
  descriptors. A signature built with the predict method has exactly the keys the
  caller wrote, in the notebook \<open>images\<close> and \<open>scores\<close>.
\<close>

theorem role_keys:
  "(\<exists>s. classification_signature inp out fs = (Inr s, fs)
       \<and> map fst (inputs s) = [CLASSIFY_INPUTS] \<and> CLASSIFY_INPUTS = ''inputs''
       \<and> map fst (outputs s) = [CLASSIFY_OUTPUT_SCORES] \<and> CLASSIFY_OUTPUT_SCORES = ''scores''
       \<and> method_name s = CLASSIFY_METHOD_NAME)
   \<and> (\<exists>s. build_signature_def (AList.update ki inp []) (AList.update ko out [])
             PREDICT_METHOD_NAME fs = (Inr s, fs)
       \<and> map fst (inputs s) = [ki] \<and> map fst (outputs s) = [ko]
       \<and> method_name s = PREDICT_METHOD_NAME)
   \<and> (\<exists>s. prediction_signature inp out fs = (Inr s, fs)
       \<and> map fst (inputs s) = [''images''] \<and> map fst (outputs s) = [''scores'']
       \<and> method_name s = PREDICT_METHOD_NAME)"
  by (simp add: build_signature_def_single classification_signature_eq prediction_signature_eq
      CLASSIFY_INPUTS_def CLASSIFY_OUTPUT_SCORES_def CLASSIFY_METHOD_NAME_def PREDICT_METHOD_NAME_def)

text \<open>
  Claim C3 says that building fails for a descriptor with an unset dtype or a shape of
  zero dimensions. It does not: from two descriptors that have both defects the
  notebook's classification signature is built, and it holds them unchanged.
\<close>

theorem builder_accepts_unset_dtype_and_scalar:
  "classification_signature
     \<lparr>name = ''x'', dtype = DT_INVALID, tensor_shape = []\<rparr>
     \<lparr>name = ''y'', dtype = DT_INVALID, tensor_shape = []\<rparr> (Dir Map.empty) =
   (Inr \<lparr>inputs = [(''inputs'', \<lparr>name = ''x'', dtype = DT_INVALID, tensor_shape = []\<rparr>)],
         outputs = [(''scores'', \<lparr>name = ''y'', dtype = DT_INVALID, tensor_shape = []\<rparr>)],
         method_name = ''tensorflow/serving/classify''\<rparr>, Dir Map.empty)"
  by (simp add: classification_signature_eq)

text \<open>
  Claim C3, amended. Signature building checks nothing: for every pair of descriptors,
  whatever their dtype and shape, both signatures are built and hold the descriptors
  unchanged; a descriptor is built from every tensor; \<^verbatim>\<open>build_signature_def\<close>
  raises for no arguments.
\<close>

theorem builder_never_fails:
  "classification_signature inp out fs =
     (Inr \<lparr>inputs = [(CLASSIFY_INPUTS, inp)], outputs = [(CLASSIFY_OUTPUT_SCORES, out)],
           method_name = CLASSIFY_METHOD_NAME\<rparr>, fs)
   \<and> prediction_signature inp out fs =
     (Inr \<lparr>inputs = [(''images'', inp)], outputs = [(''scores'', out)],
           method_name = PREDICT_METHOD_NAME\<rparr>, fs)
   \<and> build_tensor_info (Tensor n sh d) fs = (Inr \<lparr>name = n, dtype = d, tensor_shape = sh\<rparr>, fs)
   \<and> (\<forall>e. fst (build_signature_def ins outs m fs) \<noteq> Inl e)"
  by (simp add: classification_signature_eq prediction_signature_eq
      CLASSIFY_INPUTS_def CLASSIFY_OUTPUT_SCORES_def CLASSIFY_METHOD_NAME_def PREDICT_METHOD_NAME_def
      build_signature_def_def ret_def)

subsection \<open>The exporter and a directory that exists\<close>

text \<open>
  Claim C4. Whatever the directory, the version and the signature map: when
  \<^verbatim>\<open>{directory}/{version}\<close> exists, the builder's constructor, and with it the
  export, raises the "already exists" error and the file system is the one it started
  from.
\<close>

theorem export_refuses_existing_directory:
  assumes "lookup fs (components (os_path_join directory [str version])) \<noteq> None"
  shows "export_bundle (os_path_join directory [str version]) sm fs =
           (Inl (already_exists (os_path_join directory [str version])), fs)
         \<and> SavedModelBuilder (os_path_join directory [str version]) fs =
           (Inl (already_exists (os_path_join directory [str version])), fs)"
  using assms by (simp add: export_bundle_def bind_def SavedModelBuilder_cases)

text \<open>An earlier export of version 1 is refused and left as it is.\<close>

theorem export_refuses_existing_directory_witness:
  "lookup
     (Dir [''..'' \<mapsto> Dir [''models'' \<mapsto> Dir [''tf_emnist'' \<mapsto> Dir [''1'' \<mapsto>
        Dir [''saved_model.pb'' \<mapsto> File (Bytes ''old'')]]]]])
     (components (os_path_join ''../models/tf_emnist'' [str 1])) \<noteq> None
   \<and> export_bundle (os_path_join ''../models/tf_emnist'' [str 1]) []
       (Dir [''..'' \<mapsto> Dir [''models'' \<mapsto> Dir [''tf_emnist'' \<mapsto> Dir [''1'' \<mapsto>
          Dir [''saved_model.pb'' \<mapsto> File (Bytes ''old'')]]]]]) =
     (Inl (already_exists ''../models/tf_emnist/1''),
      Dir [''..'' \<mapsto> Dir [''models'' \<mapsto> Dir [''tf_emnist'' \<mapsto> Dir [''1'' \<mapsto>
          Dir [''saved_model.pb'' \<mapsto> File (Bytes ''old'')]]]]])"
proof -
  let ?fs = "Dir [''..'' \<mapsto> Dir [''models'' \<mapsto> Dir [''tf_emnist'' \<mapsto> Dir [''1'' \<mapsto>
          Dir [''saved_model.pb'' \<mapsto> File (Bytes ''old'')]]]]]"
  have p: "os_path_join ''../models/tf_emnist'' [str 1] = ''../models/tf_emnist/1''"
    by (simp add: os_path_join_def join2_def str.simps)
  have h: "lookup ?fs (components (os_path_join ''../models/tf_emnist'' [str 1])) \<noteq> None"
    unfolding p by (simp add: components_def)
  show ?thesis
    using h export_refuses_existing_directory [OF h, of "[]"] unfolding p by simp
qed

subsection \<open>The purge before the export\<close>

text \<open>
  Claim C10. Whatever the file system holds, the purge never raises; after it no
  directory is left at \<^verbatim>\<open>../models/tf_emnist\<close> and nothing below it, so the
  directory of every version \<open>v\<close> is gone, not only that of version 1; the version
  exported is the constant 1; and the builder, which is created right after the purge,
  never raises the "already exists" error.
\<close>

theorem purge_makes_target_fresh:
  "fst (purge fs) = Inr ()
   \<and> lookup (snd (purge fs)) (components export_path @ c # q) = None
   \<and> (\<forall>m. lookup (snd (purge fs)) (components export_path) \<noteq> Some (Dir m))
   \<and> lookup (snd (purge fs)) (components (os_path_join ''..'' [''models'', model_name, str v])) = None
   \<and> model_version = 1 \<and> model_path = ''../models/tf_emnist/1''
   \<and> create_builder fs = SavedModelBuilder model_path (snd (purge fs))
   \<and> (\<forall>p. fst (create_builder fs) \<noteq> Inl (already_exists p))"
proof -
  have v: "lookup (snd (purge fs)) (components (os_path_join ''..'' [''models'', model_name, str v])) = None"
    using purge_below [of fs "str v" "[]"] by (simp add: components_version_path)
  have "fst (create_builder fs) \<noteq> Inl (already_exists p)" for p
    using model_path_fresh [of fs] mkdirs_error [of "snd (purge fs)" "components model_path"]
    by (auto simp: create_builder_eq SavedModelBuilder_cases already_exists_def split: sum.splits)
  moreover have "fst (purge fs) = Inr ()"
    by (simp add: purge_eq)
  ultimately show ?thesis
    using v purge_below [of fs c q] purge_no_dir [of fs] create_builder_eq [of fs]
    by (simp add: model_version_def model_path_eq)
qed

subsection \<open>The signature map of the notebook\<close>

text \<open>
  The descriptors of the recorded graph are the two the notebook prints.
\<close>

lemma tensor_infos_recorded:
  "tensor_infos recorded_graph fs =
     (Inr (\<lparr>name = ''flattened_rescaled_img_28x28:0'', dtype = DT_FLOAT, tensor_shape = [1, 784]\<rparr>,
           \<lparr>name = ''Softmax:0'', dtype = DT_FLOAT, tensor_shape = [1, 62]\<rparr>), fs)"
  by (simp add: tensor_infos_def recorded_graph_def get_tensor_by_name_def py_defs)

lemma signature_def_map_eq:
  "default_key \<noteq> ''predict_images'' \<Longrightarrow>
     signature_def_map default_key prediction classification =
       [(''predict_images'', prediction), (default_key, classification)]"
  by (auto simp: signature_def_map_def)

text \<open>
  On the recorded graph the notebook is the purge followed by the export of its
  signature map to \<open>model_path\<close>.
\<close>

lemma notebook_export_recorded:
  "notebook_export recorded_graph default_key fs =
     export_bundle model_path
       (signature_def_map default_key
          \<lparr>inputs = [(''images'', \<lparr>name = ''flattened_rescaled_img_28x28:0'', dtype = DT_FLOAT, tensor_shape = [1, 784]\<rparr>)],
           outputs = [(''scores'', \<lparr>name = ''Softmax:0'', dtype = DT_FLOAT, tensor_shape = [1, 62]\<rparr>)],
           method_name = ''tensorflow/serving/predict''\<rparr>
          \<lparr>inputs = [(''inputs'', \<lparr>name = ''flattened_rescaled_img_28x28:0'', dtype = DT_FLOAT, tensor_shape = [1, 784]\<rparr>)],
           outputs = [(''scores'', \<lparr>name = ''Softmax:0'', dtype = DT_FLOAT, tensor_shape = [1, 62]\<rparr>)],
           method_name = ''tensorflow/serving/classify''\<rparr>)
       (snd (purge fs))"
proof -
  have p: "purge fs = (Inr (), snd (purge fs))"
    by (simp add: purge_eq)
  show ?thesis
    unfolding notebook_export_def export_bundle_def create_builder_def
    apply (subst bind_def)
    apply (subst bind_def)
    apply (subst p)
    apply (simp add: bind_def tensor_infos_recorded classification_signature_eq
        prediction_signature_eq split: prod.splits sum.splits)
    done
qed

text \<open>
  Claim C9. For the recorded graph and a default serving key other than
  \<open>predict_images\<close>, the signature map has exactly two entries: the prediction
  signature under \<open>predict_images\<close> and the classification signature under the
  default key. Both are built from the same two descriptors, that of
  \<^verbatim>\<open>flattened_rescaled_img_28x28:0\<close> (float32, [1, 784]) and that of
  \<^verbatim>\<open>Softmax:0\<close> (float32, [1, 62]); they differ in their role keys and
  method names only. Whenever the notebook's export returns, this map is what
  \<^verbatim>\<open>saved_model.pb\<close> holds.
\<close>

theorem exported_signature_map:
  assumes "default_key \<noteq> ''predict_images''"
  shows "\<exists>classification prediction.
      tensor_infos recorded_graph fs =
        (Inr (\<lparr>name = ''flattened_rescaled_img_28x28:0'', dtype = DT_FLOAT, tensor_shape = [1, 784]\<rparr>,
              \<lparr>name = ''Softmax:0'', dtype = DT_FLOAT, tensor_shape = [1, 62]\<rparr>), fs)
    \<and> classification_signature
          \<lparr>name = ''flattened_rescaled_img_28x28:0'', dtype = DT_FLOAT, tensor_shape = [1, 784]\<rparr>
          \<lparr>name = ''Softmax:0'', dtype = DT_FLOAT, tensor_shape = [1, 62]\<rparr> fs = (Inr classification, fs)
    \<and> prediction_signature
          \<lparr>name = ''flattened_rescaled_img_28x28:0'', dtype = DT_FLOAT, tensor_shape = [1, 784]\<rparr>
          \<lparr>name = ''Softmax:0'', dtype = DT_FLOAT, tensor_shape = [1, 62]\<rparr> fs = (Inr prediction, fs)
    \<and> signature_def_map default_key prediction classification =
          [(''predict_images'', prediction), (default_key, classification)]
    \<and> inputs classification = [(''inputs'', \<lparr>name = ''flattened_rescaled_img_28x28:0'', dtype = DT_FLOAT, tensor_shape = [1, 784]\<rparr>)]
    \<and> inputs prediction = [(''images'', \<lparr>name = ''flattened_rescaled_img_28x28:0'', dtype = DT_FLOAT, tensor_shape = [1, 784]\<rparr>)]
    \<and> outputs classification = [(''scores'', \<lparr>name = ''Softmax:0'', dtype = DT_FLOAT, tensor_shape = [1, 62]\<rparr>)]
    \<and> outputs prediction = [(''scores'', \<lparr>name = ''Softmax:0'', dtype = DT_FLOAT, tensor_shape = [1, 62]\<rparr>)]
    \<and> map snd (inputs classification) = map snd (inputs prediction)
    \<and> map snd (outputs classification) = map snd (outputs prediction)
    \<and> method_name classification = ''tensorflow/serving/classify''
    \<and> method_name prediction = ''tensorflow/serving/predict''
    \<and> (\<forall>path fs'. notebook_export recorded_graph default_key fs = (Inr path, fs') \<longrightarrow>
          lookup fs' (components path) =
            Some (File (SavedModelPb [\<lparr>tags = [''serve''], signature_defs =
              [(''predict_images'', prediction), (default_key, classification)]\<rparr>])))"
proof -
  let ?cs = "\<lparr>inputs = [(''inputs'', \<lparr>name = ''flattened_rescaled_img_28x28:0'', dtype = DT_FLOAT, tensor_shape = [1, 784]\<rparr>)],
            outputs = [(''scores'', \<lparr>name = ''Softmax:0'', dtype = DT_FLOAT, tensor_shape = [1, 62]\<rparr>)],
            method_name = ''tensorflow/serving/classify''\<rparr>"
  let ?ps = "\<lparr>inputs = [(''images'', \<lparr>name = ''flattened_rescaled_img_28x28:0'', dtype = DT_FLOAT, tensor_shape = [1, 784]\<rparr>)],
            outputs = [(''scores'', \<lparr>name = ''Softmax:0'', dtype = DT_FLOAT, tensor_shape = [1, 62]\<rparr>)],
            method_name = ''tensorflow/serving/predict''\<rparr>"
  let ?sm = "[(''predict_images'', ?ps), (default_key, ?cs)]"
  have sm: "signature_def_map default_key ?ps ?cs = ?sm"
    using assms by (rule signature_def_map_eq)
  have valid: "\<forall>(k, s) \<in> set ?sm. \<forall>(r, t) \<in> set (inputs s @ outputs s). name t \<noteq> [] \<and> dtype t \<noteq> DT_INVALID"
    by simp
  have written: "lookup fs' (components path) =
      Some (File (SavedModelPb [\<lparr>tags = [''serve''], signature_defs = ?sm\<rparr>]))"
    if run: "notebook_export recorded_graph default_key fs = (Inr path, fs')" for path fs'
  proof -
    let ?fs0 = "snd (purge fs)"
    have e: "export_bundle model_path ?sm ?fs0 = (Inr path, fs')"
      using run by (simp add: notebook_export_recorded sm)
    have new: "lookup ?fs0 (components model_path) = None"
      by (rule model_path_fresh)
    obtain fs1 where mk: "mkdirs ?fs0 (components model_path) = Inr fs1"
      using e new by (cases "mkdirs ?fs0 (components model_path)")
        (auto simp: export_bundle_def bind_def SavedModelBuilder_cases)
    obtain fs3 where e': "export_bundle model_path ?sm ?fs0 = (Inr (os_path_join model_path [''saved_model.pb'']), fs3)"
      and l: "lookup fs3 (components model_path) =
               Some (Dir [''variables'' \<mapsto> Dir Map.empty,
                          ''saved_model.pb'' \<mapsto> File (SavedModelPb [\<lparr>tags = [SERVING], signature_defs = ?sm\<rparr>])])"
      using export_bundle_ok [OF new mk valid] by blast
    have "components (os_path_join model_path [''saved_model.pb'']) = components model_path @ [''saved_model.pb'']"
      by (rule components_join_name) auto
    then show ?thesis
      using e e' l by (simp add: lookup_append SERVING_def)
  qed
  show ?thesis
    apply (rule exI [of _ ?cs])
    apply (rule exI [of _ ?ps])
    using sm written
    apply (simp add: tensor_infos_recorded classification_signature_eq prediction_signature_eq)
    done
qed

text \<open>
  With TensorFlow's default key \<open>serving_default\<close> and an empty working
  directory the export returns, and the file holds the two signatures.
\<close>

theorem exported_signature_map_witness:
  "''serving_default'' \<noteq> ''predict_images''
   \<and> fst (notebook_export recorded_graph ''serving_default'' (Dir Map.empty)) =
       Inr ''../models/tf_emnist/1/saved_model.pb''
   \<and> lookup (snd (notebook_export recorded_graph ''serving_default'' (Dir Map.empty)))
       [''..'', ''models'', ''tf_emnist'', ''1'', ''saved_model.pb''] =
       Some (File (SavedModelPb [\<lparr>tags = [''serve''], signature_defs =
         [(''predict_images'', \<lparr>inputs = [(''images'', \<lparr>name = ''flattened_rescaled_img_28x28:0'', dtype = DT_FLOAT, tensor_shape = [1, 784]\<rparr>)],
            outputs = [(''scores'', \<lparr>name = ''Softmax:0'', dtype = DT_FLOAT, tensor_shape = [1, 62]\<rparr>)],
            method_name = ''tensorflow/serving/predict''\<rparr>),
          (''serving_default'', \<lparr>inputs = [(''inputs'', \<lparr>name = ''flattened_rescaled_img_28x28:0'', dtype = DT_FLOAT, tensor_shape = [1, 784]\<rparr>)],
            outputs = [(''scores'', \<lparr>name = ''Softmax:0'', dtype = DT_FLOAT, tensor_shape = [1, 62]\<rparr>)],
            method_name = ''tensorflow/serving/classify''\<rparr>)]\<rparr>]))"
proof -
  have k: "''serving_default'' \<noteq> ''predict_images''"
    by simp
  have p: "purge (Dir Map.empty) = (Inr (), Dir Map.empty)"
    by (simp add: purge_eq components_export_path)
  have r: "fst (notebook_export recorded_graph ''serving_default'' (Dir Map.empty)) =
       Inr ''../models/tf_emnist/1/saved_model.pb''"
    by (simp add: notebook_export_recorded p signature_def_map_def model_path_eq
      export_bundle_def add_and_save_def SavedModelBuilder_def add_meta_graph_and_variables_def
      save_def validate_signature_def_map_def validate_tensor_info_def py_defs file_exists_def
      recursive_create_dir_def write_string_to_file_def components_def os_path_join_def join2_def
      SERVING_def)
  have c: "components ''../models/tf_emnist/1/saved_model.pb'' =
      [''..'', ''models'', ''tf_emnist'', ''1'', ''saved_model.pb'']"
    by (simp add: components_def)
  obtain fs' where e: "notebook_export recorded_graph ''serving_default'' (Dir Map.empty) =
      (Inr ''../models/tf_emnist/1/saved_model.pb'', fs')"
    using r by (cases "notebook_export recorded_graph ''serving_default'' (Dir Map.empty)") auto
  show ?thesis
    using k r e c exported_signature_map [OF k, of "Dir Map.empty"]
    by (auto simp: classification_signature_eq prediction_signature_eq)
qed

subsection \<open>\<^verbatim>\<open>numpy.argmax\<close>\<close>

text \<open>
  The scan answers an index of the array it reads.
\<close>

lemma argmax_from_bound: "b < i \<Longrightarrow> argmax_from b v i xs < i + length xs"
proof (induction xs arbitrary: b v i)
  case Nil
  then show ?case by simp
next
  case (Cons x xs)
  have "argmax_from b v (Suc i) xs < Suc i + length xs"
    using Cons.prems by (intro Cons.IH) simp
  moreover have "argmax_from i x (Suc i) xs < Suc i + length xs"
    by (intro Cons.IH) simp
  ultimately show ?case
    using Cons.prems by simp
qed

lemma those_map_Some: "those (map (\<lambda>x. Some (f x)) xs) = Some (map f xs)"
  by (induction xs) auto

lemma flat_row: "flat (List (map Num r)) = r"
  by (induction r) auto

lemma dims_row: "r \<noteq> [] \<Longrightarrow> dims (List (map Num r)) = Some [length r]"
proof -
  assume "r \<noteq> []"
  then obtain x r' where r: "r = x # r'" by (cases r) auto
  have "those (map dims (map Num r)) = Some (map (\<lambda>_. []) r)"
    using those_map_Some [of "\<lambda>_. []" r] by (simp add: comp_def)
  then show ?thesis
    by (simp add: r list_all_iff)
qed

text \<open>
  On a response that holds one row of scores, as the request of one instance asks for,
  the class index the predict cell prints is the arg-max of that row and lies below the
  row's length.
\<close>

lemma np_argmax_one_row:
  assumes "row \<noteq> []"
  shows "\<exists>a. np_argmax (JNumeric (List [List (map Num row)])) = Inr a \<and> a < length row"
proof -
  obtain x xs where r: "row = x # xs"
    using assms by (cases row) auto
  have d: "dims (List [List (map Num row)]) = Some [1, length row]"
    using dims_row [OF assms] by (simp del: dims.simps add: dims.simps(2) [of "[_]"])
  have f: "flat (List [List (map Num row)]) = row"
    using flat_row [of row] by (simp del: flat.simps add: flat.simps(2) [of "[_]"])
  have "np_argmax (JNumeric (List [List (map Num row)])) = Inr (argmax_from 0 x 1 xs)"
    unfolding np_argmax.simps d f by (simp add: r)
  moreover have "argmax_from 0 x 1 xs < length row"
    using argmax_from_bound [of 0 1 x xs] by (simp add: r)
  ultimately show ?thesis by blast
qed

lemma predict_cell_one_row:
  assumes "row \<noteq> []"
    and "map_of kv ''predictions'' = Some (JNumeric (List [List (map Num row)]))"
  shows "\<exists>a. predict_cell (Replied \<lparr>status_code = c, body = Some (JObj kv)\<rparr>) = Some (Inr (c, JObj kv, a))
           \<and> np_argmax (JNumeric (List [List (map Num row)])) = Inr a \<and> a < length row"
proof -
  obtain a where a: "np_argmax (JNumeric (List [List (map Num row)])) = Inr a" and b: "a < length row"
    using np_argmax_one_row [OF assms(1)] by blast
  have "predict_cell (Replied \<lparr>status_code = c, body = Some (JObj kv)\<rparr>) = Some (Inr (c, JObj kv, a))"
    using a assms(2) by (simp add: predict_cell_def request_def response_json_def del: np_argmax.simps)
  then show ?thesis using a b by blast
qed

subsection \<open>The accuracy evaluation\<close>

text \<open>
  The loop visits every example, counts the examples whose predicted class is the
  label, and logs every failed request with the index of its example.
\<close>

lemma eval_loop_total: "total (eval_loop i xs t) = total t + length xs"
  by (induction i xs t rule: eval_loop.induct) (auto split: sum.splits)

lemma eval_loop_correct:
  "correct (eval_loop i xs t) =
     correct t + length (filter (\<lambda>(x, label). predicted_class x = Inr label) xs)"
  by (induction i xs t rule: eval_loop.induct) (auto split: sum.splits)

lemma eval_loop_failures:
  "failures (eval_loop i xs t) =
     failures t @ concat (map (\<lambda>(k, x, label). case predicted_class x of Inl f \<Rightarrow> [(k, f)] | Inr c \<Rightarrow> [])
                            (enumerate i xs))"
  by (induction i xs t rule: eval_loop.induct) (auto split: sum.splits)

subsection \<open>The requests\<close>

text \<open>
  Claim C6 says that no network failure of a status or predict request raises an
  unhandled exception. The status cell has no handler: when no connection can be made
  the cell ends with \<^verbatim>\<open>ConnectionError\<close>.
\<close>

theorem status_request_refused_raises:
  "status_cell Refused = Some (Inl ConnectionError)"
  by (simp add: status_cell_def request_def)

text \<open>
  Claim C6, amended. The notebook's own requests are not guarded. When no connection
  can be made, or the body is not JSON, the status cell and the predict cell end with
  the exception; as no timeout is set, a server that never answers keeps either cell
  waiting without end. A response with a JSON body is reported by the status cell
  whatever its status code, so a status that is not 2xx is reported and not raised. The
  predict cell ends with \<^verbatim>\<open>KeyError\<close> for every object without a
  \<open>predictions\<close> member, with \<^verbatim>\<open>TypeError\<close> for a document that is
  no object, and with the error of \<^verbatim>\<open>numpy.argmax\<close> if there is one.
  Within the accuracy-evaluation loop, as the specification describes it, a failed
  request (refused, timed out, not 2xx, not JSON) is a failure and no exception; the
  loop counts every example whichever requests fail, a failed request adds nothing to
  the count of correct predictions, and it is logged with the index of its example.
\<close>

theorem requests_are_not_guarded:
  "status_cell Refused = Some (Inl ConnectionError)
   \<and> status_cell Silent = None
   \<and> status_cell (Replied \<lparr>status_code = c, body = None\<rparr>) = Some (Inl JSONDecodeError)
   \<and> status_cell (Replied \<lparr>status_code = c, body = Some j\<rparr>) = Some (Inr (c, j))
   \<and> predict_cell Refused = Some (Inl ConnectionError)
   \<and> predict_cell Silent = None
   \<and> predict_cell (Replied \<lparr>status_code = c, body = None\<rparr>) = Some (Inl JSONDecodeError)
   \<and> predict_cell (Replied \<lparr>status_code = c, body = Some (JNumeric n)\<rparr>) = Some (Inl TypeError)
   \<and> predict_cell (Replied \<lparr>status_code = c, body = Some (JStr s)\<rparr>) = Some (Inl TypeError)
   \<and> predict_cell (Replied \<lparr>status_code = c, body = Some (JObj kv)\<rparr>) =
       (case map_of kv ''predictions'' of
          None \<Rightarrow> Some (Inl (KeyError ''predictions''))
        | Some p \<Rightarrow>
            (case np_argmax p of
               Inl e \<Rightarrow> Some (Inl e)
             | Inr a \<Rightarrow> Some (Inr (c, JObj kv, a))))
   \<and> predicted_class Refused = Inl ConnectionRefused
   \<and> predicted_class Silent = Inl TimedOut
   \<and> predicted_class (Replied \<lparr>status_code = c, body = None\<rparr>) =
       (if 200 \<le> c \<and> c < 300 then Inl MalformedJSON else Inl (NonSuccess c))
   \<and> predicted_class (Replied \<lparr>status_code = c, body = b\<rparr>) =
       (if 200 \<le> c \<and> c < 300 then predicted_class (Replied \<lparr>status_code = c, body = b\<rparr>)
        else Inl (NonSuccess c))
   \<and> correct (eval_serving_performance (before @ (Refused, label) # after)) =
       correct (eval_serving_performance (before @ after))
   \<and> correct (eval_serving_performance (before @ (Silent, label) # after)) =
       correct (eval_serving_performance (before @ after))
   \<and> total (eval_serving_performance (before @ (x, label) # after)) =
       length before + 1 + length after
   \<and> correct (eval_serving_performance (before @ (x, label) # after)) =
       correct (eval_serving_performance (before @ after))
         + (if predicted_class x = Inr label then 1 else 0)
   \<and> failures (eval_serving_performance examples) =
       concat (map (\<lambda>(k, x, label). case predicted_class x of Inl f \<Rightarrow> [(k, f)] | Inr c \<Rightarrow> [])
                   (enumerate 0 examples))"
  by (simp add: status_cell_def predict_cell_def request_def response_json_def predicted_class_def
      eval_serving_performance_def eval_loop_total eval_loop_correct eval_loop_failures
      split: option.splits sum.splits del: np_argmax.simps)

end
